theory Spec2Isabelle
  imports Complex_Main "HOL-Library.AList"
begin

section \<open>Python strings\<close>

text \<open>
  A Python \<^verbatim>\<open>str\<close> is a sequence of Unicode code points, so it is modelled as a list
  of naturals. Literals of the source that are plain ASCII are written through
  \<open>ascii\<close>; the Chinese message literals are written as their code points.
\<close>

type_synonym pystr = "nat list"

definition ascii :: "string \<Rightarrow> pystr" where
  "ascii s = map of_char s"

definition slash :: nat where
  "slash = of_char CHR ''/''"

definition qmark :: nat where
  "qmark = of_char CHR ''?''"

definition newline :: nat where
  "newline = 10"

text \<open>\<^verbatim>\<open>s.split(sep)\<close> for a one-character separator: never the empty list.\<close>

fun split_on :: "'a \<Rightarrow> 'a list \<Rightarrow> 'a list list" where
  "split_on c [] = [[]]"
| "split_on c (x # xs) =
     (if x = c then [] # split_on c xs
      else (case split_on c xs of
              [] \<Rightarrow> [[x]]
            | p # ps \<Rightarrow> (x # p) # ps))"

text \<open>\<^verbatim>\<open>sep.join(parts)\<close>.\<close>

fun py_join :: "'a list \<Rightarrow> 'a list list \<Rightarrow> 'a list" where
  "py_join sep [] = []"
| "py_join sep [p] = p"
| "py_join sep (p # q # ps) = p @ sep @ py_join sep (q # ps)"

definition startswith :: "'a list \<Rightarrow> 'a list \<Rightarrow> bool" where
  "startswith s pre = (take (length pre) s = pre)"

text \<open>\<^verbatim>\<open>str(n)\<close> for a non-negative integer: its decimal digits.\<close>

function str_of_nat :: "nat \<Rightarrow> pystr" where
  "str_of_nat n = (if n < 10 then [48 + n] else str_of_nat (n div 10) @ [48 + n mod 10])"
  by pat_completeness auto
termination
  by (relation "measure id") auto

definition str_of_int :: "int \<Rightarrow> pystr" where
  "str_of_int i = (if i < 0 then of_char CHR ''-'' # str_of_nat (nat (- i)) else str_of_nat (nat i))"

section \<open>The download filename\<close>

text \<open>
  \<^verbatim>\<open>filename = url.split('/')[-1].split('?')[0]\<close>, as written in both
  \<^verbatim>\<open>import_remote_asset\<close> and \<^verbatim>\<open>batch_import_remote_assets\<close>. Neither index can
  fail, since \<open>split_on\<close> never returns the empty list.
\<close>

definition url_filename :: "pystr \<Rightarrow> pystr" where
  "url_filename url = hd (split_on qmark (last (split_on slash url)))"

text \<open>
  The specification's wording: the last path segment of the URL, taken before any
  question mark in the URL.
\<close>

definition spec_filename :: "pystr \<Rightarrow> pystr" where
  "spec_filename url = last (split_on slash (takeWhile (\<lambda>c. c \<noteq> qmark) url))"

section \<open>POSIX path functions\<close>

text \<open>\<^verbatim>\<open>os.path.dirname\<close>, \<^verbatim>\<open>os.path.basename\<close> and the two-argument
  \<^verbatim>\<open>os.path.join\<close> of \<^verbatim>\<open>posixpath\<close>.\<close>

definition rstrip_slash :: "pystr \<Rightarrow> pystr" where
  "rstrip_slash p = rev (dropWhile (\<lambda>c. c = slash) (rev p))"

definition path_head :: "pystr \<Rightarrow> pystr" where
  "path_head p = rev (dropWhile (\<lambda>c. c \<noteq> slash) (rev p))"

definition dirname :: "pystr \<Rightarrow> pystr" where
  "dirname p =
     (let head = path_head p
      in if head \<noteq> [] \<and> \<not> list_all (\<lambda>c. c = slash) head then rstrip_slash head else head)"

definition basename :: "pystr \<Rightarrow> pystr" where
  "basename p = rev (takeWhile (\<lambda>c. c \<noteq> slash) (rev p))"

definition path_join :: "pystr \<Rightarrow> pystr \<Rightarrow> pystr" where
  "path_join a b =
     (if startswith b [slash] then b
      else if a = [] \<or> last a = slash then a @ b
      else a @ [slash] @ b)"

lemma length_dirname_le: "length (dirname p) \<le> length p"
proof -
  have h: "length (path_head p) \<le> length p"
    unfolding path_head_def using length_dropWhile_le [of _ "rev p"] by simp
  have "length (rstrip_slash (path_head p)) \<le> length (path_head p)"
    unfolding rstrip_slash_def using length_dropWhile_le [of _ "rev (path_head p)"] by simp
  with h show ?thesis by (simp add: dirname_def Let_def)
qed

lemma dirname_prefix: "take (length (dirname p)) p = dirname p"
proof -
  have tk: "\<And>P (xs :: nat list). take (length (rev (dropWhile P (rev xs)))) xs = rev (dropWhile P (rev xs))"
  proof -
    fix P and xs :: "nat list"
    have "rev xs = takeWhile P (rev xs) @ dropWhile P (rev xs)" by simp
    then have "xs = rev (dropWhile P (rev xs)) @ rev (takeWhile P (rev xs))"
      by (metis rev_append rev_rev_ident)
    then show "take (length (rev (dropWhile P (rev xs)))) xs = rev (dropWhile P (rev xs))"
      by (metis append_eq_conv_conj)
  qed
  have a: "take (length (path_head p)) p = path_head p"
    unfolding path_head_def by (rule tk)
  have b: "take (length (rstrip_slash (path_head p))) (path_head p) = rstrip_slash (path_head p)"
    unfolding rstrip_slash_def by (rule tk)
  have c: "length (rstrip_slash (path_head p)) \<le> length (path_head p)"
    unfolding rstrip_slash_def using length_dropWhile_le [of _ "rev (path_head p)"] by simp
  have "take (length (rstrip_slash (path_head p))) p = rstrip_slash (path_head p)"
  proof -
    have "take (length (rstrip_slash (path_head p))) p
          = take (length (rstrip_slash (path_head p))) (take (length (path_head p)) p)"
      using c by (simp add: min_def)
    then show ?thesis using a b by simp
  qed
  with a show ?thesis by (simp add: dirname_def Let_def)
qed

lemma dirname_shorter: "dirname p \<noteq> p \<Longrightarrow> length (dirname p) < length p"
proof -
  assume ne: "dirname p \<noteq> p"
  have "length (dirname p) \<noteq> length p"
  proof
    assume "length (dirname p) = length p"
    with dirname_prefix [of p] have "dirname p = p" by simp
    with ne show False by simp
  qed
  with length_dirname_le [of p] show ?thesis by simp
qed

text \<open>The proper ancestors of a path, nearest first (used by \<^verbatim>\<open>os.makedirs\<close>).\<close>

function ancestors :: "pystr \<Rightarrow> pystr list" where
  "ancestors p =
     (let d = dirname p in if d = [] \<or> d = p then [] else d # ancestors d)"
  by pat_completeness auto
termination
  by (relation "measure length") (auto simp: dirname_shorter)

section \<open>Values, exceptions, commands and responses\<close>

text \<open>
  Tool arguments are untyped at run time. A value is either a \<^verbatim>\<open>str\<close> or some other
  object, of which the code observes only the type name, the truth value and the
  \<^verbatim>\<open>str()\<close> rendering. The \<open>urls\<close> argument is a list of such values or a single
  one (a string iterates over its characters; any other single object is taken to be
  not iterable, as \<^verbatim>\<open>None\<close>, numbers and booleans are).
\<close>

datatype pyobj = PyStr pystr | PyOther pystr bool pystr

datatype pyarg = PyList "pyobj list" | PyScalar pyobj

fun truthy :: "pyobj \<Rightarrow> bool" where
  "truthy (PyStr s) = (s \<noteq> [])"
| "truthy (PyOther tn t r) = t"

fun isinstance_str :: "pyobj \<Rightarrow> bool" where
  "isinstance_str (PyStr s) = True"
| "isinstance_str (PyOther tn t r) = False"

fun py_str :: "pyobj \<Rightarrow> pystr" where
  "py_str (PyStr s) = s"
| "py_str (PyOther tn t r) = r"

fun arg_truthy :: "pyarg \<Rightarrow> bool" where
  "arg_truthy (PyList xs) = (xs \<noteq> [])"
| "arg_truthy (PyScalar v) = truthy v"

datatype py_exception =
    AttributeError pystr
  | TypeError pystr
  | OSError pystr
  | HTTPError pystr
  | ConnectionError pystr

fun exc_str :: "py_exception \<Rightarrow> pystr" where
  "exc_str (AttributeError m) = m"
| "exc_str (TypeError m) = m"
| "exc_str (OSError m) = m"
| "exc_str (HTTPError m) = m"
| "exc_str (ConnectionError m) = m"

definition apostrophe :: nat where
  "apostrophe = 39"

text \<open>\<^verbatim>\<open>for i, url in enumerate(urls)\<close>: the items, or the \<^verbatim>\<open>TypeError\<close> of an object
  that is not iterable.\<close>

fun py_iter :: "pyarg \<Rightarrow> py_exception + pyobj list" where
  "py_iter (PyList xs) = Inr xs"
| "py_iter (PyScalar (PyStr s)) = Inr (map (\<lambda>c. PyStr [c]) s)"
| "py_iter (PyScalar (PyOther tn t r)) =
     Inl (TypeError ([apostrophe] @ tn @ [apostrophe] @ ascii '' object is not iterable''))"

text \<open>\<^verbatim>\<open>len(urls)\<close>. The code evaluates it inside the loop only, hence only for a list
  or a string.\<close>

fun py_len :: "pyarg \<Rightarrow> nat" where
  "py_len (PyList xs) = length xs"
| "py_len (PyScalar v) = length (py_str v)"

text \<open>\<^verbatim>\<open>url.split(c)\<close> on a value: a non-string has no such attribute.\<close>

fun py_split :: "pyobj \<Rightarrow> nat \<Rightarrow> py_exception + pystr list" where
  "py_split (PyStr s) c = Inr (split_on c s)"
| "py_split (PyOther tn t r) c =
     Inl (AttributeError ([apostrophe] @ tn @ [apostrophe] @ ascii '' object has no attribute ''
            @ [apostrophe] @ ascii ''split'' @ [apostrophe]))"

text \<open>
  Colour components of \<^verbatim>\<open>set_material\<close>: integers, booleans (instances of
  \<^verbatim>\<open>int\<close>), floats (finite ones over-approximated by the reals, the infinities and
  NaN), or a value that is neither \<^verbatim>\<open>int\<close> nor \<^verbatim>\<open>float\<close> (with its rendering).
\<close>

datatype color_item =
  CInt int | CBool bool | CFloat real | CInf | CNegInf | CNaN | CNonNumber pystr

datatype param = PStr pystr | PBool bool | PColor "color_item list"

record command =
  cmd_name :: pystr
  cmd_params :: "(pystr \<times> param) list"

text \<open>
  The collaborator's response is a mapping; its keys are optional, their values typed
  as the collaborator's interface gives them.
\<close>

record asset_entry =
  a_path :: "pystr option"
  a_name :: "pystr option"

record response =
  r_success :: "bool option"
  r_message :: "pystr option"
  r_error :: "pystr option"
  r_assets :: "asset_entry list option"
  r_objects :: "pystr list option"
  r_material_name :: "pystr option"
  r_path :: "pystr option"

section \<open>The world: file system, temporary names, traffic logs\<close>

record world =
  dirs :: "pystr set"
  files :: "(pystr \<times> nat list) list"
  tmp_names :: "pystr list"
  sent :: "command list"
  fetched :: "pystr list"

datatype fs_op =
    OpMakedirs pystr
  | OpMkdtemp
  | OpOpen pystr
  | OpWrite pystr
  | OpRemove pystr
  | OpRmdir pystr

text \<open>What a streaming GET does: the connection fails, the status is not 2xx
  (\<^verbatim>\<open>raise_for_status\<close>), or the body arrives in chunks, possibly cut by an error.\<close>

datatype http_outcome =
    ConnectFailed pystr
  | BadStatus pystr
  | Streamed "nat list list" "pystr option"

text \<open>
  The environment the code runs in: whether \<^verbatim>\<open>get_unity_connection\<close> raises, what
  the collaborator answers (given the commands sent so far), what the network does
  (given the URLs fetched so far), the home directory, which file-system calls the
  operating system refuses beyond the modelled reasons and with what message, and how
  Python renders a float.
\<close>

record env =
  connect_fails :: "pystr option"
  unity :: "command list \<Rightarrow> command \<Rightarrow> py_exception + response"
  http :: "pystr list \<Rightarrow> pystr \<Rightarrow> http_outcome"
  home_dir :: pystr
  fs_fault :: "fs_op \<Rightarrow> world \<Rightarrow> bool"
  os_msg :: "fs_op \<Rightarrow> pystr"
  float_str :: "real \<Rightarrow> pystr"

type_synonym 'a eff = "world \<Rightarrow> (py_exception + 'a) \<times> world"

definition get_unity_connection :: "env \<Rightarrow> py_exception + unit" where
  "get_unity_connection e =
     (case connect_fails e of Some m \<Rightarrow> Inl (ConnectionError m) | None \<Rightarrow> Inr ())"

text \<open>\<^verbatim>\<open>unity.send_command(name, params)\<close>: the command is logged, then answered.\<close>

definition send_command :: "env \<Rightarrow> pystr \<Rightarrow> (pystr \<times> param) list \<Rightarrow> response eff" where
  "send_command e name params w =
     (let c = \<lparr>cmd_name = name, cmd_params = params\<rparr>
      in (unity e (sent w) c, w\<lparr>sent := sent w @ [c]\<rparr>))"

subsection \<open>File-system calls\<close>

definition is_file :: "world \<Rightarrow> pystr \<Rightarrow> bool" where
  "is_file w p = (map_of (files w) p \<noteq> None)"

definition path_exists :: "world \<Rightarrow> pystr \<Rightarrow> bool" where
  "path_exists w p = (p \<in> dirs w \<or> is_file w p)"

text \<open>\<^verbatim>\<open>os.makedirs(p, exist_ok=True)\<close>: an existing directory is accepted; otherwise
  the directory and its missing ancestors are created, unless a file is in the way.\<close>

definition makedirs :: "env \<Rightarrow> pystr \<Rightarrow> unit eff" where
  "makedirs e p w =
     (if fs_fault e (OpMakedirs p) w then (Inl (OSError (os_msg e (OpMakedirs p))), w)
      else if p \<in> dirs w then (Inr (), w)
      else if p = [] \<or> is_file w p \<or> list_ex (is_file w) (ancestors p)
        then (Inl (OSError (os_msg e (OpMakedirs p))), w)
      else (Inr (), w\<lparr>dirs := dirs w \<union> insert p (set (ancestors p))\<rparr>))"

text \<open>\<^verbatim>\<open>tempfile.mkdtemp()\<close>: the first candidate name that does not exist yet is
  created.\<close>

definition mkdtemp :: "env \<Rightarrow> pystr eff" where
  "mkdtemp e w =
     (if fs_fault e OpMkdtemp w then (Inl (OSError (os_msg e OpMkdtemp)), w)
      else (case dropWhile (path_exists w) (tmp_names w) of
              [] \<Rightarrow> (Inl (OSError (os_msg e OpMkdtemp)), w\<lparr>tmp_names := []\<rparr>)
            | d # rest \<Rightarrow> (Inr d, w\<lparr>dirs := insert d (dirs w), tmp_names := rest\<rparr>)))"

text \<open>\<^verbatim>\<open>open(p, 'wb')\<close>: creates or truncates the file; a path naming a directory or
  lacking its parent directory is refused.\<close>

definition open_wb :: "env \<Rightarrow> pystr \<Rightarrow> unit eff" where
  "open_wb e p w =
     (if fs_fault e (OpOpen p) w then (Inl (OSError (os_msg e (OpOpen p))), w)
      else if basename p \<in> {[], ascii ''.'', ascii ''..''} \<or> p \<in> dirs w
        then (Inl (OSError (os_msg e (OpOpen p))), w)
      else if dirname p \<notin> dirs w then (Inl (OSError (os_msg e (OpOpen p))), w)
      else (Inr (), w\<lparr>files := AList.update p [] (files w)\<rparr>))"

definition write_chunk :: "env \<Rightarrow> pystr \<Rightarrow> nat list \<Rightarrow> unit eff" where
  "write_chunk e p chunk w =
     (if fs_fault e (OpWrite p) w then (Inl (OSError (os_msg e (OpWrite p))), w)
      else (Inr (), w\<lparr>files := AList.update p
              ((case map_of (files w) p of None \<Rightarrow> [] | Some old \<Rightarrow> old) @ chunk) (files w)\<rparr>))"

fun write_chunks :: "env \<Rightarrow> pystr \<Rightarrow> nat list list \<Rightarrow> unit eff" where
  "write_chunks e p [] w = (Inr (), w)"
| "write_chunks e p (c # cs) w =
     (case write_chunk e p c w of
        (Inl x, w1) \<Rightarrow> (Inl x, w1)
      | (Inr u, w1) \<Rightarrow> write_chunks e p cs w1)"

definition os_remove :: "env \<Rightarrow> pystr \<Rightarrow> unit eff" where
  "os_remove e p w =
     (if fs_fault e (OpRemove p) w then (Inl (OSError (os_msg e (OpRemove p))), w)
      else if p \<in> dirs w \<or> \<not> is_file w p then (Inl (OSError (os_msg e (OpRemove p))), w)
      else (Inr (), w\<lparr>files := AList.delete p (files w)\<rparr>))"

definition has_children :: "world \<Rightarrow> pystr \<Rightarrow> bool" where
  "has_children w d =
     ((\<exists>q \<in> dirs w. q \<noteq> d \<and> dirname q = d) \<or> list_ex (\<lambda>q. dirname q = d) (map fst (files w)))"

definition os_rmdir :: "env \<Rightarrow> pystr \<Rightarrow> unit eff" where
  "os_rmdir e d w =
     (if fs_fault e (OpRmdir d) w then (Inl (OSError (os_msg e (OpRmdir d))), w)
      else if d \<notin> dirs w \<or> has_children w d then (Inl (OSError (os_msg e (OpRmdir d))), w)
      else (Inr (), w\<lparr>dirs := dirs w - {d}\<rparr>))"

section \<open>download_file\<close>

text \<open>
  The body of the \<^verbatim>\<open>try\<close>: create the target's directory, open the stream, check
  the status, open the target for writing, write the chunks as they arrive. The
  \<^verbatim>\<open>except Exception\<close> turns every failure into \<^verbatim>\<open>False\<close> (the message it prints is
  not modelled); nothing is removed or renamed on that path.
\<close>

definition download_file_body :: "env \<Rightarrow> pystr \<Rightarrow> pystr \<Rightarrow> bool eff" where
  "download_file_body e url target_path w =
     (case makedirs e (dirname target_path) w of
        (Inl x, w1) \<Rightarrow> (Inl x, w1)
      | (Inr u, w1) \<Rightarrow>
          (let w2 = w1\<lparr>fetched := fetched w1 @ [url]\<rparr>
           in case http e (fetched w1) url of
                ConnectFailed m \<Rightarrow> (Inl (ConnectionError m), w2)
              | BadStatus m \<Rightarrow> (Inl (HTTPError m), w2)
              | Streamed chunks brk \<Rightarrow>
                  (case open_wb e target_path w2 of
                     (Inl x, w3) \<Rightarrow> (Inl x, w3)
                   | (Inr u, w3) \<Rightarrow>
                       (case write_chunks e target_path chunks w3 of
                          (Inl x, w4) \<Rightarrow> (Inl x, w4)
                        | (Inr u, w4) \<Rightarrow>
                            (case brk of
                               Some m \<Rightarrow> (Inl (ConnectionError m), w4)
                             | None \<Rightarrow> (Inr True, w4))))))"

definition download_file :: "env \<Rightarrow> pystr \<Rightarrow> pystr \<Rightarrow> world \<Rightarrow> bool \<times> world" where
  "download_file e url target_path w =
     (case download_file_body e url target_path w of
        (Inl x, w1) \<Rightarrow> (False, w1)
      | (Inr b, w1) \<Rightarrow> (b, w1))"

section \<open>import_remote_asset\<close>

subsection \<open>Its messages\<close>

text \<open>The message literals of the source, as code points; each is glossed in English.\<close>

definition msg_url_invalid :: pystr where
  \<comment> \<open>"Error: the URL must be a valid string"\<close>
  "msg_url_invalid =
     [0x932F, 0x8AA4, 0x3A, 0x20, 0x55, 0x52, 0x4C, 0x5FC5, 0x9808, 0x662F, 0x6709, 0x6548,
      0x7684, 0x5B57, 0x7B26, 0x4E32]"

definition msg_target_invalid :: pystr where
  \<comment> \<open>"Error: the target path must be a valid string"\<close>
  "msg_target_invalid =
     [0x932F, 0x8AA4, 0x3A, 0x20, 0x76EE, 0x6A19, 0x8DEF, 0x5F91, 0x5FC5, 0x9808, 0x662F,
      0x6709, 0x6548, 0x7684, 0x5B57, 0x7B26, 0x4E32]"

definition msg_exists :: "pystr \<Rightarrow> pystr" where
  \<comment> \<open>"The asset already exists at '...'. Use overwrite=True to replace it."\<close>
  "msg_exists target_path =
     [0x8CC7, 0x6E90, 0x5DF2, 0x5B58, 0x5728, 0x65BC, 0x27] @ target_path
     @ [0x27, 0x3002, 0x4F7F, 0x7528] @ ascii ''overwrite=True''
     @ [0x4F86, 0x66FF, 0x63DB, 0x5B83, 0x3002]"

definition msg_download_failed :: "pystr \<Rightarrow> pystr" where
  \<comment> \<open>"Downloading the asset from the URL failed: ..."\<close>
  "msg_download_failed url =
     [0x5F9E, 0x55, 0x52, 0x4C, 0x4E0B, 0x8F09, 0x8CC7, 0x6E90, 0x5931, 0x6557, 0x3A, 0x20] @ url"

definition msg_file_missing :: "pystr \<Rightarrow> pystr" where
  \<comment> \<open>"The download seems to have succeeded, but the file cannot be found: ..."\<close>
  "msg_file_missing download_path =
     [0x4E0B, 0x8F09, 0x4F3C, 0x4E4E, 0x6210, 0x529F, 0xFF0C, 0x4F46, 0x627E, 0x4E0D, 0x5230,
      0x6587, 0x4EF6, 0x3A, 0x20] @ download_path"

definition msg_unknown_error :: pystr where
  \<comment> \<open>"unknown error"\<close>
  "msg_unknown_error = [0x672A, 0x77E5, 0x932F, 0x8AA4]"

definition msg_import_error :: "pystr \<Rightarrow> pystr \<Rightarrow> pystr \<Rightarrow> pystr" where
  \<comment> \<open>"An error occurred while importing the asset: ... (URL: ..., target: ...)"\<close>
  "msg_import_error err url target_path =
     [0x5C0E, 0x5165, 0x8CC7, 0x6E90, 0x6642, 0x767C, 0x751F, 0x932F, 0x8AA4, 0x3A, 0x20] @ err
     @ ascii '' (URL: '' @ url @ [0x2C, 0x20, 0x76EE, 0x6A19, 0x3A, 0x20] @ target_path
     @ ascii '')''"

definition msg_imported :: "pystr \<Rightarrow> pystr \<Rightarrow> pystr" where
  \<comment> \<open>"The asset was imported from ... to ..."\<close>
  "msg_imported url target_path =
     [0x8CC7, 0x6E90, 0x6210, 0x529F, 0x5F9E] @ url @ [0x5C0E, 0x5165, 0x5230] @ target_path"

definition msg_exception :: "py_exception \<Rightarrow> pystr" where
  \<comment> \<open>"An error occurred while importing the remote asset: ..."\<close>
  "msg_exception x =
     [0x5C0E, 0x5165, 0x9060, 0x7A0B, 0x8CC7, 0x6E90, 0x6642, 0x767C, 0x751F, 0x932F, 0x8AA4,
      0x3A, 0x20] @ exc_str x"

subsection \<open>The operation\<close>

text \<open>Lines 329-330: the target path is put under \<^verbatim>\<open>Assets/\<close>.\<close>

definition normalize_target :: "pystr \<Rightarrow> pystr" where
  "normalize_target target_path =
     (if \<not> startswith target_path (ascii ''Assets/'') then ascii ''Assets/'' @ target_path
      else target_path)"

text \<open>Lines 333-339: the parameters of the existence query.\<close>

definition asset_list_params :: "pystr \<Rightarrow> (pystr \<times> param) list" where
  "asset_list_params target_path =
     (let target_dir = py_join [slash] (butlast (split_on slash target_path));
          target_filename = last (split_on slash target_path)
      in [(ascii ''search_pattern'', PStr target_filename),
          (ascii ''folder'', PStr (if target_dir = [] then ascii ''Assets'' else target_dir))])"

definition import_params :: "pystr \<Rightarrow> pystr \<Rightarrow> bool \<Rightarrow> (pystr \<times> param) list" where
  "import_params download_path target_path overwrite =
     [(ascii ''source_path'', PStr download_path),
      (ascii ''target_path'', PStr target_path),
      (ascii ''overwrite'', PBool overwrite)]"

text \<open>Lines 346-360: the directory (temporary or persistent) and the download path.\<close>

definition download_dir :: "env \<Rightarrow> pystr" where
  "download_dir e = path_join (home_dir e) (ascii ''.unity_mcp_downloads'')"

definition resolve_download_path :: "env \<Rightarrow> pystr \<Rightarrow> bool \<Rightarrow> (pystr \<times> pystr) eff" where
  "resolve_download_path e url temp_download w =
     (if temp_download then
        (case mkdtemp e w of
           (Inl x, w1) \<Rightarrow> (Inl x, w1)
         | (Inr temp_dir, w1) \<Rightarrow> (Inr (temp_dir, path_join temp_dir (url_filename url)), w1))
      else
        (case makedirs e (download_dir e) w of
           (Inl x, w1) \<Rightarrow> (Inl x, w1)
         | (Inr u, w1) \<Rightarrow>
             (Inr (download_dir e, path_join (download_dir e) (url_filename url)), w1)))"

text \<open>Lines 379-384: remove the file, then the directory; any failure is passed over.\<close>

definition cleanup_temp :: "env \<Rightarrow> pystr \<Rightarrow> pystr \<Rightarrow> world \<Rightarrow> world" where
  "cleanup_temp e download_path temp_dir w =
     (case os_remove e download_path w of
        (Inl x, w1) \<Rightarrow> w1
      | (Inr u, w1) \<Rightarrow> snd (os_rmdir e temp_dir w1))"

text \<open>Lines 362-389: download, check, import, clean up, report.\<close>

definition download_and_import ::
  "env \<Rightarrow> pystr \<Rightarrow> pystr \<Rightarrow> bool \<Rightarrow> bool \<Rightarrow> pystr \<Rightarrow> pystr \<Rightarrow> pystr eff" where
  "download_and_import e url target_path overwrite temp_download temp_dir download_path w =
     (case download_file e url download_path w of
        (download_success, w1) \<Rightarrow>
          if \<not> download_success then (Inr (msg_download_failed url), w1)
          else if \<not> path_exists w1 download_path then (Inr (msg_file_missing download_path), w1)
          else
            (case send_command e (ascii ''IMPORT_ASSET'')
                    (import_params download_path target_path overwrite) w1 of
               (Inl x, w2) \<Rightarrow> (Inl x, w2)
             | (Inr resp, w2) \<Rightarrow>
                 (let w3 = (if temp_download then cleanup_temp e download_path temp_dir w2 else w2)
                  in if \<not> (case r_success resp of None \<Rightarrow> False | Some b \<Rightarrow> b)
                     then (Inr (msg_import_error
                                  (case r_error resp of None \<Rightarrow> msg_unknown_error | Some err \<Rightarrow> err)
                                  url target_path), w3)
                     else (Inr (case r_message resp of
                                  None \<Rightarrow> msg_imported url target_path
                                | Some m \<Rightarrow> m), w3))))"

text \<open>Lines 319-389, the body of the \<^verbatim>\<open>try\<close>.\<close>

definition import_remote_asset_body :: "env \<Rightarrow> pyobj \<Rightarrow> pyobj \<Rightarrow> bool \<Rightarrow> bool \<Rightarrow> pystr eff" where
  "import_remote_asset_body e url target_path overwrite temp_download w =
     (case get_unity_connection e of
        Inl x \<Rightarrow> (Inl x, w)
      | Inr u \<Rightarrow>
          if \<not> truthy url \<or> \<not> isinstance_str url then (Inr msg_url_invalid, w)
          else if \<not> truthy target_path \<or> \<not> isinstance_str target_path
            then (Inr msg_target_invalid, w)
          else
            (let target = normalize_target (py_str target_path)
             in case send_command e (ascii ''GET_ASSET_LIST'') (asset_list_params target) w of
                  (Inl x, w1) \<Rightarrow> (Inl x, w1)
                | (Inr resp, w1) \<Rightarrow>
                    (let existing_assets = (case r_assets resp of None \<Rightarrow> [] | Some xs \<Rightarrow> xs);
                         asset_exists = list_ex (\<lambda>a. a_path a = Some target) existing_assets
                     in if asset_exists \<and> \<not> overwrite then (Inr (msg_exists target), w1)
                        else
                          (case resolve_download_path e (py_str url) temp_download w1 of
                             (Inl x, w2) \<Rightarrow> (Inl x, w2)
                           | (Inr (dir, download_path), w2) \<Rightarrow>
                               download_and_import e (py_str url) target overwrite temp_download
                                 dir download_path w2))))"

text \<open>Lines 390-391: \<^verbatim>\<open>except Exception\<close> turns an exception into a message.\<close>

definition import_remote_asset :: "env \<Rightarrow> pyobj \<Rightarrow> pyobj \<Rightarrow> bool \<Rightarrow> bool \<Rightarrow> pystr eff" where
  "import_remote_asset e url target_path overwrite temp_download w =
     (case import_remote_asset_body e url target_path overwrite temp_download w of
        (Inl x, w1) \<Rightarrow> (Inr (msg_exception x), w1)
      | (Inr s, w1) \<Rightarrow> (Inr s, w1))"

section \<open>batch_import_remote_assets\<close>

definition msg_empty_urls :: pystr where
  \<comment> \<open>"The URL list is empty, there is no asset to import"\<close>
  "msg_empty_urls =
     [0x55, 0x52, 0x4C, 0x5217, 0x8868, 0x70BA, 0x7A7A, 0xFF0C, 0x6C92, 0x6709, 0x8CC7, 0x6E90,
      0x9700, 0x8981, 0x5C0E, 0x5165]"

definition item_label :: "nat \<Rightarrow> nat \<Rightarrow> pystr" where
  \<comment> \<open>\<^verbatim>\<open>[{i+1}/{len(urls)}]\<close> and a space\<close>
  "item_label i n = ascii ''['' @ str_of_nat (i + 1) @ ascii ''/'' @ str_of_nat n @ ascii ''] ''"

definition msg_item_error :: "nat \<Rightarrow> nat \<Rightarrow> pyobj \<Rightarrow> py_exception \<Rightarrow> pystr" where
  \<comment> \<open>"[i/n] url: error - ..."\<close>
  "msg_item_error i n url x =
     item_label i n @ py_str url @ [0x3A, 0x20, 0x932F, 0x8AA4, 0x20, 0x2D, 0x20] @ exc_str x"

text \<open>Lines 417-429, the body of the \<^verbatim>\<open>try\<close> for one item; \<open>n\<close> is \<^verbatim>\<open>len(urls)\<close>.
  The call leaves \<^verbatim>\<open>temp_download\<close> at its default, \<^verbatim>\<open>True\<close>.\<close>

definition batch_item_body :: "env \<Rightarrow> nat \<Rightarrow> pystr \<Rightarrow> bool \<Rightarrow> nat \<Rightarrow> pyobj \<Rightarrow> pystr eff" where
  "batch_item_body e n target_folder overwrite i url w =
     (case py_split url slash of
        Inl x \<Rightarrow> (Inl x, w)
      | Inr parts \<Rightarrow>
          (let filename = hd (split_on qmark (last parts));
               target_path = target_folder @ [slash] @ filename
           in case import_remote_asset e url (PyStr target_path) overwrite True w of
                (Inl x, w1) \<Rightarrow> (Inl x, w1)
              | (Inr result, w1) \<Rightarrow>
                  (Inr (item_label i n @ filename @ ascii '': '' @ result), w1)))"

definition batch_item :: "env \<Rightarrow> nat \<Rightarrow> pystr \<Rightarrow> bool \<Rightarrow> nat \<Rightarrow> pyobj \<Rightarrow> world \<Rightarrow> pystr \<times> world" where
  "batch_item e n target_folder overwrite i url w =
     (case batch_item_body e n target_folder overwrite i url w of
        (Inl x, w1) \<Rightarrow> (msg_item_error i n url x, w1)
      | (Inr line, w1) \<Rightarrow> (line, w1))"

text \<open>The \<^verbatim>\<open>for\<close> loop from index \<open>i\<close> on: the lines appended to \<^verbatim>\<open>results\<close>.\<close>

fun batch_loop ::
  "env \<Rightarrow> nat \<Rightarrow> pystr \<Rightarrow> bool \<Rightarrow> nat \<Rightarrow> pyobj list \<Rightarrow> world \<Rightarrow> pystr list \<times> world" where
  "batch_loop e n target_folder overwrite i [] w = ([], w)"
| "batch_loop e n target_folder overwrite i (url # urls) w =
     (case batch_item e n target_folder overwrite i url w of
        (line, w1) \<Rightarrow>
          (case batch_loop e n target_folder overwrite (Suc i) urls w1 of
             (lines, w2) \<Rightarrow> (line # lines, w2)))"

text \<open>Lines 411-433. The emptiness test and the loop header stand outside any
  \<^verbatim>\<open>try\<close>.\<close>

definition batch_import_remote_assets :: "env \<Rightarrow> pyarg \<Rightarrow> pystr \<Rightarrow> bool \<Rightarrow> pystr eff" where
  "batch_import_remote_assets e urls target_folder overwrite w =
     (if \<not> arg_truthy urls then (Inr msg_empty_urls, w)
      else
        (case py_iter urls of
           Inl x \<Rightarrow> (Inl x, w)
         | Inr items \<Rightarrow>
             (case batch_loop e (py_len urls) target_folder overwrite 0 items w of
                (results, w1) \<Rightarrow> (Inr (py_join [newline] results), w1))))"

section \<open>set_material\<close>

fun is_number :: "color_item \<Rightarrow> bool" where
  "is_number (CNonNumber r) = False"
| "is_number v = True"

text \<open>\<^verbatim>\<open>value < 0.0\<close> and \<^verbatim>\<open>value > 1.0\<close>; \<^verbatim>\<open>True\<close> counts as 1, \<^verbatim>\<open>False\<close> as 0, and
  every comparison with NaN is false.\<close>

fun below_zero :: "color_item \<Rightarrow> bool" where
  "below_zero (CInt i) = (i < 0)"
| "below_zero (CFloat r) = (r < 0)"
| "below_zero CNegInf = True"
| "below_zero v = False"

fun above_one :: "color_item \<Rightarrow> bool" where
  "above_one (CInt i) = (i > 1)"
| "above_one (CFloat r) = (r > 1)"
| "above_one CInf = True"
| "above_one v = False"

fun color_item_str :: "env \<Rightarrow> color_item \<Rightarrow> pystr" where
  "color_item_str e (CInt i) = str_of_int i"
| "color_item_str e (CBool b) = (if b then ascii ''True'' else ascii ''False'')"
| "color_item_str e (CFloat r) = float_str e r"
| "color_item_str e CInf = ascii ''inf''"
| "color_item_str e CNegInf = ascii ''-inf''"
| "color_item_str e CNaN = ascii ''nan''"
| "color_item_str e (CNonNumber r) = r"

definition msg_object_not_found :: "pystr \<Rightarrow> pystr" where
  "msg_object_not_found object_name =
     ascii ''GameObject '' @ [apostrophe] @ object_name @ [apostrophe]
     @ ascii '' not found in the scene.''"

definition msg_material_not_found :: "pystr \<Rightarrow> pystr" where
  "msg_material_not_found material_name =
     ascii ''Material '' @ [apostrophe] @ material_name @ [apostrophe]
     @ ascii '' not found. Use create_if_missing=True to create it.''"

definition msg_color_length :: "nat \<Rightarrow> pystr" where
  "msg_color_length n =
     ascii ''Error: Color must have 3 (RGB) or 4 (RGBA) components, but got ''
     @ str_of_nat n @ ascii ''.''"

definition msg_color_not_number :: "nat \<Rightarrow> pystr" where
  "msg_color_not_number i =
     ascii ''Error: Color component at index '' @ str_of_nat i @ ascii '' is not a number.''"

definition channel_name :: "nat \<Rightarrow> pystr" where
  "channel_name i =
     (if i < 4 then [ascii ''RGBA'' ! i] else ascii ''component '' @ str_of_nat i)"

definition msg_color_range :: "env \<Rightarrow> nat \<Rightarrow> color_item \<Rightarrow> pystr" where
  "msg_color_range e i v =
     ascii ''Error: Color '' @ channel_name i
     @ ascii '' value must be in the range 0.0-1.0, but got '' @ color_item_str e v @ ascii ''.''"

definition msg_applied_shared :: "pystr \<Rightarrow> pystr \<Rightarrow> pystr \<Rightarrow> pystr" where
  "msg_applied_shared material_name object_name material_path =
     ascii ''Applied shared material '' @ [apostrophe] @ material_name @ [apostrophe]
     @ ascii '' to '' @ object_name @ ascii '' (saved at '' @ material_path @ ascii '')''"

definition msg_applied_instance :: "pystr \<Rightarrow> pystr \<Rightarrow> pystr" where
  "msg_applied_instance material_name object_name =
     ascii ''Applied instance material '' @ [apostrophe] @ material_name @ [apostrophe]
     @ ascii '' to '' @ object_name"

definition msg_material_exception :: "py_exception \<Rightarrow> pystr" where
  "msg_material_exception x = ascii ''Error setting material: '' @ exc_str x"

text \<open>Lines 61-67: the loop over the components; the first offending one decides.\<close>

fun check_components :: "env \<Rightarrow> nat \<Rightarrow> color_item list \<Rightarrow> pystr option" where
  "check_components e i [] = None"
| "check_components e i (v # vs) =
     (if \<not> is_number v then Some (msg_color_not_number i)
      else if below_zero v \<or> above_one v then Some (msg_color_range e i v)
      else check_components e (Suc i) vs)"

text \<open>Lines 55-67: \<^verbatim>\<open>if color:\<close> skips both \<^verbatim>\<open>None\<close> and the empty list.\<close>

definition color_truthy :: "color_item list option \<Rightarrow> bool" where
  "color_truthy color = (case color of None \<Rightarrow> False | Some cs \<Rightarrow> cs \<noteq> [])"

definition validate_color :: "env \<Rightarrow> color_item list option \<Rightarrow> pystr option" where
  "validate_color e color =
     (case color of
        None \<Rightarrow> None
      | Some cs \<Rightarrow>
          if cs = [] then None
          else if \<not> (length cs = 3 \<or> length cs = 4) then Some (msg_color_length (length cs))
          else check_components e 0 cs)"

definition name_truthy :: "pystr option \<Rightarrow> bool" where
  "name_truthy s = (case s of None \<Rightarrow> False | Some t \<Rightarrow> t \<noteq> [])"

text \<open>Lines 70-77.\<close>

definition set_material_params ::
  "pystr \<Rightarrow> pystr option \<Rightarrow> color_item list option \<Rightarrow> bool \<Rightarrow> (pystr \<times> param) list" where
  "set_material_params object_name material_name color create_if_missing =
     [(ascii ''object_name'', PStr object_name),
      (ascii ''create_if_missing'', PBool create_if_missing)]
     @ (if name_truthy material_name then [(ascii ''material_name'', PStr (the material_name))]
        else [])
     @ (if color_truthy color then [(ascii ''color'', PColor (the color))] else [])"

text \<open>Lines 69-86: send the command and report.\<close>

definition apply_material ::
  "env \<Rightarrow> pystr \<Rightarrow> pystr option \<Rightarrow> color_item list option \<Rightarrow> bool \<Rightarrow> pystr eff" where
  "apply_material e object_name material_name color create_if_missing w =
     (case send_command e (ascii ''SET_MATERIAL'')
             (set_material_params object_name material_name color create_if_missing) w of
        (Inl x, w1) \<Rightarrow> (Inl x, w1)
      | (Inr result, w1) \<Rightarrow>
          (let material_name' =
                 (case r_material_name result of None \<Rightarrow> ascii ''unknown'' | Some m \<Rightarrow> m)
           in if name_truthy (r_path result)
              then (Inr (msg_applied_shared material_name' object_name (the (r_path result))), w1)
              else (Inr (msg_applied_instance material_name' object_name), w1)))"

text \<open>Lines 42-52: the material lookup; \<open>Some msg\<close> is the early return.\<close>

definition check_material :: "env \<Rightarrow> pystr option \<Rightarrow> bool \<Rightarrow> pystr option eff" where
  "check_material e material_name create_if_missing w =
     (if name_truthy material_name then
        (case send_command e (ascii ''GET_ASSET_LIST'')
                [(ascii ''type'', PStr (ascii ''Material'')),
                 (ascii ''search_pattern'', PStr (the material_name)),
                 (ascii ''folder'', PStr (ascii ''Assets/Materials''))] w of
           (Inl x, w1) \<Rightarrow> (Inl x, w1)
         | (Inr resp, w1) \<Rightarrow>
             (let material_assets = (case r_assets resp of None \<Rightarrow> [] | Some xs \<Rightarrow> xs);
                  material_exists = list_ex (\<lambda>a. a_name a = material_name) material_assets
              in if \<not> material_exists \<and> \<not> create_if_missing
                 then (Inr (Some (msg_material_not_found (the material_name))), w1)
                 else (Inr None, w1)))
      else (Inr None, w))"

text \<open>Lines 30-86, the body of the \<^verbatim>\<open>try\<close>.\<close>

definition set_material_body ::
  "env \<Rightarrow> pystr \<Rightarrow> pystr option \<Rightarrow> color_item list option \<Rightarrow> bool \<Rightarrow> pystr eff" where
  "set_material_body e object_name material_name color create_if_missing w =
     (case get_unity_connection e of
        Inl x \<Rightarrow> (Inl x, w)
      | Inr u \<Rightarrow>
          (case send_command e (ascii ''FIND_OBJECTS_BY_NAME'')
                  [(ascii ''name'', PStr object_name)] w of
             (Inl x, w1) \<Rightarrow> (Inl x, w1)
           | (Inr object_response, w1) \<Rightarrow>
               (let objects = (case r_objects object_response of None \<Rightarrow> [] | Some xs \<Rightarrow> xs)
                in if objects = [] then (Inr (msg_object_not_found object_name), w1)
                   else
                     (case check_material e material_name create_if_missing w1 of
                        (Inl x, w2) \<Rightarrow> (Inl x, w2)
                      | (Inr (Some msg), w2) \<Rightarrow> (Inr msg, w2)
                      | (Inr None, w2) \<Rightarrow>
                          (case validate_color e color of
                             Some msg \<Rightarrow> (Inr msg, w2)
                           | None \<Rightarrow>
                               apply_material e object_name material_name color
                                 create_if_missing w2)))))"

definition set_material ::
  "env \<Rightarrow> pystr \<Rightarrow> pystr option \<Rightarrow> color_item list option \<Rightarrow> bool \<Rightarrow> pystr eff" where
  "set_material e object_name material_name color create_if_missing w =
     (case set_material_body e object_name material_name color create_if_missing w of
        (Inl x, w1) \<Rightarrow> (Inr (msg_material_exception x), w1)
      | (Inr s, w1) \<Rightarrow> (Inr s, w1))"

section \<open>Scenarios and notions used in the statements\<close>

text \<open>A response with no key at all, a small file system, and an environment whose
  server answers every request with a 404.\<close>

definition empty_response :: response where
  "empty_response =
     \<lparr>r_success = None, r_message = None, r_error = None, r_assets = None,
      r_objects = None, r_material_name = None, r_path = None\<rparr>"

definition world0 :: world where
  "world0 =
     \<lparr>dirs = {ascii ''/tmp'', ascii ''/home/u''}, files = [],
      tmp_names = [ascii ''/tmp/tmpa1''], sent = [], fetched = []\<rparr>"

definition env_404 :: env where
  "env_404 =
     \<lparr>connect_fails = None,
      unity = (\<lambda>h c. Inr empty_response),
      http = (\<lambda>h u. BadStatus (ascii ''404 Not Found'')),
      home_dir = ascii ''/home/u'',
      fs_fault = (\<lambda>op w. False),
      os_msg = (\<lambda>op. ascii ''OSError''),
      float_str = (\<lambda>r. ascii ''0.5'')\<rparr>"

text \<open>The two commands \<^verbatim>\<open>import_remote_asset\<close> sends.\<close>

definition get_asset_list_cmd :: "pystr \<Rightarrow> command" where
  "get_asset_list_cmd target =
     \<lparr>cmd_name = ascii ''GET_ASSET_LIST'', cmd_params = asset_list_params target\<rparr>"


text \<open>An environment in which the asset \<^verbatim>\<open>Assets/Imported/model.fbx\<close> is already
  listed, and the server would deliver the file.\<close>

definition listed_response :: response where
  "listed_response =
     empty_response\<lparr>r_assets :=
       Some [\<lparr>a_path = Some (ascii ''Assets/Imported/model.fbx''),
              a_name = Some (ascii ''model.fbx'')\<rparr>]\<rparr>"

definition env_listed :: env where
  "env_listed =
     \<lparr>connect_fails = None,
      unity = (\<lambda>h c. Inr listed_response),
      http = (\<lambda>h u. Streamed [[1, 2], [3]] None),
      home_dir = ascii ''/home/u'',
      fs_fault = (\<lambda>op w. False),
      os_msg = (\<lambda>op. ascii ''OSError''),
      float_str = (\<lambda>r. ascii ''0.5'')\<rparr>"

text \<open>An environment in which everything works: no asset is listed, the server
  delivers three bytes in two chunks, the import succeeds.\<close>

definition ok_response :: response where
  "ok_response = empty_response\<lparr>r_success := Some True\<rparr>"

definition env_ok :: env where
  "env_ok =
     \<lparr>connect_fails = None,
      unity = (\<lambda>h c. Inr ok_response),
      http = (\<lambda>h u. Streamed [[1, 2], [3]] None),
      home_dir = ascii ''/home/u'',
      fs_fault = (\<lambda>op w. False),
      os_msg = (\<lambda>op. ascii ''OSError''),
      float_str = (\<lambda>r. ascii ''0.5'')\<rparr>"


text \<open>A batch scenario: the server refuses \<^verbatim>\<open>b.png\<close> and delivers everything else.\<close>

definition env_batch :: env where
  "env_batch =
     env_ok\<lparr>http := (\<lambda>h u. if u = ascii ''https://host/b.png''
                            then BadStatus (ascii ''404 Not Found'')
                            else Streamed [[1, 2], [3]] None)\<rparr>"

definition world3 :: world where
  "world3 =
     world0\<lparr>tmp_names := [ascii ''/tmp/tmpa1'', ascii ''/tmp/tmpa2'', ascii ''/tmp/tmpa3'']\<rparr>"

text \<open>A transfer that does not complete: no connection, a status that is not 2xx, or a
  body cut by an error.\<close>

definition http_fails :: "http_outcome \<Rightarrow> bool" where
  "http_fails outcome =
     (case outcome of
        ConnectFailed m \<Rightarrow> True
      | BadStatus m \<Rightarrow> True
      | Streamed chunks brk \<Rightarrow> brk \<noteq> None)"

text \<open>An environment whose server sends three bytes and then drops the connection.\<close>

definition env_cut :: env where
  "env_cut = env_ok\<lparr>http := (\<lambda>h u. Streamed [[1, 2], [3]] (Some (ascii ''connection reset'')))\<rparr>"

text \<open>The commands \<^verbatim>\<open>set_material\<close> sends.\<close>

definition find_objects_cmd :: "pystr \<Rightarrow> command" where
  "find_objects_cmd object_name =
     \<lparr>cmd_name = ascii ''FIND_OBJECTS_BY_NAME'',
      cmd_params = [(ascii ''name'', PStr object_name)]\<rparr>"

definition material_list_cmd :: "pystr \<Rightarrow> command" where
  "material_list_cmd material_name =
     \<lparr>cmd_name = ascii ''GET_ASSET_LIST'',
      cmd_params = [(ascii ''type'', PStr (ascii ''Material'')),
                    (ascii ''search_pattern'', PStr material_name),
                    (ascii ''folder'', PStr (ascii ''Assets/Materials''))]\<rparr>"

definition set_material_cmd ::
  "pystr \<Rightarrow> pystr option \<Rightarrow> color_item list option \<Rightarrow> bool \<Rightarrow> command" where
  "set_material_cmd object_name material_name color create_if_missing =
     \<lparr>cmd_name = ascii ''SET_MATERIAL'',
      cmd_params = set_material_params object_name material_name color create_if_missing\<rparr>"

text \<open>A colour list the claim calls invalid: a length other than 3 and 4, or a
  component that is not a number, is below 0.0 or is above 1.0.\<close>

definition bad_color :: "color_item list \<Rightarrow> bool" where
  "bad_color cs =
     (\<not> (length cs = 3 \<or> length cs = 4)
      \<or> list_ex (\<lambda>v. \<not> is_number v \<or> below_zero v \<or> above_one v) cs)"

text \<open>An environment in which the object \<^verbatim>\<open>Cube\<close> is found.\<close>

definition env_found :: env where
  "env_found =
     env_ok\<lparr>unity := (\<lambda>h c. if cmd_name c = ascii ''FIND_OBJECTS_BY_NAME''
                            then Inr (empty_response\<lparr>r_objects := Some [ascii ''Cube'']\<rparr>)
                            else Inr empty_response)\<rparr>"

section \<open>Properties\<close>

lemmas fs_defs =
  makedirs_def mkdtemp_def open_wb_def write_chunk_def os_remove_def os_rmdir_def
  has_children_def is_file_def path_exists_def

lemmas path_defs =
  dirname_def basename_def path_join_def path_head_def rstrip_slash_def
  startswith_def slash_def qmark_def ascii_def

lemmas import_defs =
  import_remote_asset_def import_remote_asset_body_def download_and_import_def
  resolve_download_path_def download_file_def download_file_body_def send_command_def
  get_unity_connection_def normalize_target_def asset_list_params_def import_params_def
  cleanup_temp_def url_filename_def download_dir_def

subsection \<open>Splitting\<close>

lemma split_on_nonempty: "split_on c xs \<noteq> []"
  by (induction xs) (auto split: list.splits)

lemma hd_split_on: "hd (split_on c xs) = takeWhile (\<lambda>x. x \<noteq> c) xs"
  by (induction xs) (auto split: list.splits simp: split_on_nonempty)

lemma split_on_absent: "c \<notin> set ys \<Longrightarrow> split_on c ys = [ys]"
  by (induction ys) auto

lemma length_split_on_append:
  "c \<notin> set ys \<Longrightarrow> length (split_on c (xs @ ys)) = length (split_on c xs)"
proof (induction xs)
  case Nil
  then show ?case by (simp add: split_on_absent)
next
  case (Cons z zs)
  then show ?case
    by (cases "split_on c zs"; cases "split_on c (zs @ ys)") (auto simp: split_on_nonempty)
qed

lemma last_split_on_append:
  "c \<notin> set ys \<Longrightarrow> last (split_on c (xs @ ys)) = last (split_on c xs) @ ys"
proof (induction xs)
  case Nil
  then show ?case by (simp add: split_on_absent)
next
  case (Cons x xs)
  show ?case
  proof (cases "x = c")
    case True
    with Cons show ?thesis by (simp add: split_on_nonempty)
  next
    case False
    obtain p ps where a: "split_on c xs = p # ps"
      using split_on_nonempty [of c xs] by (cases "split_on c xs") auto
    obtain q qs where b: "split_on c (xs @ ys) = q # qs"
      using split_on_nonempty [of c "xs @ ys"] by (cases "split_on c (xs @ ys)") auto
    from Cons a b False length_split_on_append [OF Cons.prems, of xs] show ?thesis
      by (cases ps; cases qs) auto
  qed
qed

lemma set_last_split_on: "set (last (split_on c xs)) \<subseteq> set xs"
proof (induction xs)
  case Nil
  then show ?case by simp
next
  case (Cons x xs)
  obtain p ps where a: "split_on c xs = p # ps"
    using split_on_nonempty [of c xs] by (cases "split_on c xs") auto
  with Cons show ?case by (cases ps) auto
qed

subsection \<open>The download filename\<close>

text \<open>
  Where no slash follows the first question mark, the code's filename is the last path
  segment before the query.
\<close>

lemma url_filename_agrees:
  assumes "slash \<notin> set (dropWhile (\<lambda>c. c \<noteq> qmark) url)"
  shows "url_filename url = spec_filename url"
proof -
  let ?pre = "takeWhile (\<lambda>c. c \<noteq> qmark) url"
  let ?rest = "dropWhile (\<lambda>c. c \<noteq> qmark) url"
  let ?seg = "last (split_on slash ?pre)"
  have "url = ?pre @ ?rest" by simp
  then have "last (split_on slash url) = ?seg @ ?rest"
    using last_split_on_append [OF assms, of ?pre] by simp
  moreover have noq: "\<forall>x \<in> set ?seg. x \<noteq> qmark"
    using set_last_split_on [of slash ?pre] by (auto dest: set_takeWhileD)
  moreover have "takeWhile (\<lambda>c. c \<noteq> qmark) ?rest = []"
    using hd_dropWhile [of "\<lambda>c. c \<noteq> qmark" url] by (auto simp: takeWhile_eq_Nil_iff)
  ultimately show ?thesis
    by (simp add: url_filename_def spec_filename_def hd_split_on takeWhile_append)
qed

text \<open>
  C3. The claim: for every URL whose last path segment, taken before any question
  mark, is F, the computed download filename is F. The code splits at the slashes
  first and at the question mark second, so a slash inside the query string (as in a
  presigned S3 link) makes the filename a piece of the query: here the last path
  segment is \<^verbatim>\<open>model.fbx\<close> and the code computes \<^verbatim>\<open>aws4_request\<close>.
\<close>

theorem url_filename_query_slash:
  "url_filename (ascii ''https://bucket.s3.amazonaws.com/model.fbx?X-Amz-Credential=AKIA/20240101/us-east-1/s3/aws4_request'')
     = ascii ''aws4_request''
   \<and> spec_filename (ascii ''https://bucket.s3.amazonaws.com/model.fbx?X-Amz-Credential=AKIA/20240101/us-east-1/s3/aws4_request'')
     = ascii ''model.fbx''"
  by (simp add: url_filename_def spec_filename_def ascii_def slash_def qmark_def)

subsection \<open>The empty batch\<close>

text \<open>
  C7. \<^verbatim>\<open>batch_import_remote_assets\<close> called with an empty list returns the fixed
  message and leaves the world as it was: nothing is sent to the collaborator, nothing
  is fetched, the file system is untouched.
\<close>

theorem batch_empty_urls:
  "batch_import_remote_assets e (PyList []) target_folder overwrite w = (Inr msg_empty_urls, w)"
  by (simp add: batch_import_remote_assets_def)

subsection \<open>What each step leaves untouched\<close>

lemma makedirs_frame:
  "makedirs e p w = (r, w') \<Longrightarrow>
     sent w' = sent w \<and> fetched w' = fetched w \<and> files w' = files w \<and> dirs w \<subseteq> dirs w'"
  by (auto simp: makedirs_def split: if_splits)

lemma mkdtemp_frame:
  "mkdtemp e w = (r, w') \<Longrightarrow>
     sent w' = sent w \<and> fetched w' = fetched w \<and> files w' = files w \<and> dirs w \<subseteq> dirs w'"
  by (auto simp: mkdtemp_def split: if_splits list.splits)

lemma open_wb_frame:
  "open_wb e p w = (r, w') \<Longrightarrow>
     sent w' = sent w \<and> fetched w' = fetched w \<and> dirs w' = dirs w"
  by (auto simp: open_wb_def split: if_splits)

lemma write_chunk_frame:
  "write_chunk e p c w = (r, w') \<Longrightarrow>
     sent w' = sent w \<and> fetched w' = fetched w \<and> dirs w' = dirs w"
  by (auto simp: write_chunk_def split: if_splits)

lemma write_chunks_frame:
  "write_chunks e p cs w = (r, w') \<Longrightarrow>
     sent w' = sent w \<and> fetched w' = fetched w \<and> dirs w' = dirs w"
proof (induction cs arbitrary: w)
  case Nil
  then show ?case by simp
next
  case (Cons c cs)
  obtain r1 w1 where s: "write_chunk e p c w = (r1, w1)" by (cases "write_chunk e p c w")
  note f = write_chunk_frame [OF s]
  show ?case
  proof (cases r1)
    case (Inl x)
    with Cons.prems s f show ?thesis by simp
  next
    case (Inr u)
    with Cons.prems s have "write_chunks e p cs w1 = (r, w')" by simp
    from Cons.IH [OF this] f show ?thesis by simp
  qed
qed




lemma send_command_frame:
  "send_command e name params w = (r, w') \<Longrightarrow>
     w' = w\<lparr>sent := sent w @ [\<lparr>cmd_name = name, cmd_params = params\<rparr>]\<rparr>
     \<and> r = unity e (sent w) \<lparr>cmd_name = name, cmd_params = params\<rparr>"
  by (auto simp: send_command_def Let_def)

lemma download_file_body_frame:
  "download_file_body e url p w = (r, w') \<Longrightarrow> sent w' = sent w \<and> dirs w \<subseteq> dirs w'"
  unfolding download_file_body_def Let_def
  by (auto split: prod.splits sum.splits http_outcome.splits option.splits
      dest!: makedirs_frame open_wb_frame write_chunks_frame)

lemma download_file_frame:
  "download_file e url p w = (b, w') \<Longrightarrow> sent w' = sent w \<and> dirs w \<subseteq> dirs w'"
  unfolding download_file_def
  by (auto split: prod.splits sum.splits dest!: download_file_body_frame)

lemma resolve_download_path_frame:
  "resolve_download_path e url td w = (r, w') \<Longrightarrow>
     sent w' = sent w \<and> fetched w' = fetched w \<and> files w' = files w \<and> dirs w \<subseteq> dirs w'"
  unfolding resolve_download_path_def
  by (auto split: if_splits prod.splits sum.splits dest!: makedirs_frame mkdtemp_frame)

subsection \<open>The commands sent by import_remote_asset\<close>



subsection \<open>The temporary directory\<close>

text \<open>
  Where the call reaches the import command, the clean-up runs: after a successful
  import the file system is as it was before the call.
\<close>

lemma temp_dir_removed_after_import:
  "fst (import_remote_asset env_ok (PyStr (ascii ''https://host/dir/model.fbx?v=2''))
          (PyStr (ascii ''Assets/Imported/model.fbx'')) False True world0)
     = Inr (msg_imported (ascii ''https://host/dir/model.fbx?v=2'') (ascii ''Assets/Imported/model.fbx''))
   \<and> dirs (snd (import_remote_asset env_ok (PyStr (ascii ''https://host/dir/model.fbx?v=2''))
          (PyStr (ascii ''Assets/Imported/model.fbx'')) False True world0)) = dirs world0
   \<and> files (snd (import_remote_asset env_ok (PyStr (ascii ''https://host/dir/model.fbx?v=2''))
          (PyStr (ascii ''Assets/Imported/model.fbx'')) False True world0)) = []"
  by (simp add: import_defs fs_defs path_defs env_ok_def world0_def ok_response_def
      empty_response_def Let_def)

text \<open>
  C1. The claim: with \<^verbatim>\<open>temp_download=True\<close> the temporary directory is gone after
  every call, whatever the outcome. The clean-up of lines 379-384 stands after the
  import command only; the returns of lines 365 and 369 and the exception handler leave
  without it. Here the server answers 404: the call reports the download failure, and
  the directory \<^verbatim>\<open>/tmp/tmpa1\<close>, which did not exist before and which
  \<^verbatim>\<open>mkdtemp\<close> created for this call, is still there afterwards.
\<close>

theorem temp_dir_left_after_failed_download:
  "fst (import_remote_asset env_404 (PyStr (ascii ''https://host/dir/model.fbx''))
          (PyStr (ascii ''Imported/model.fbx'')) False True world0)
     = Inr (msg_download_failed (ascii ''https://host/dir/model.fbx''))
   \<and> ascii ''/tmp/tmpa1'' \<notin> dirs world0
   \<and> ascii ''/tmp/tmpa1'' \<in> dirs (snd (import_remote_asset env_404
          (PyStr (ascii ''https://host/dir/model.fbx''))
          (PyStr (ascii ''Imported/model.fbx'')) False True world0))"
  by (simp add: import_defs fs_defs path_defs env_404_def world0_def empty_response_def Let_def)

subsection \<open>An asset that is already there\<close>

text \<open>
  C4. When the connection is available, both arguments are non-empty strings, the
  listing query answers with an entry whose path is exactly the normalized target
  path, and \<^verbatim>\<open>overwrite\<close> is false, the call returns the "already exists" message
  and the world differs from the one before only by the listing query in the log of
  sent commands: no URL is fetched, no directory or file is created. Every repeated
  call under these conditions does the same.
\<close>

theorem existing_asset_no_download:
  assumes "connect_fails e = None" and "u \<noteq> []" and "t \<noteq> []"
    and "unity e (sent w) (get_asset_list_cmd (normalize_target t)) = Inr resp"
    and "r_assets resp = Some entries"
    and "\<exists>a \<in> set entries. a_path a = Some (normalize_target t)"
  shows "import_remote_asset e (PyStr u) (PyStr t) False temp_download w
           = (Inr (msg_exists (normalize_target t)),
              w\<lparr>sent := sent w @ [get_asset_list_cmd (normalize_target t)]\<rparr>)"
proof -
  have "list_ex (\<lambda>a. a_path a = Some (normalize_target t)) entries"
    using assms(6) by (simp add: list_ex_iff)
  with assms(1-5) show ?thesis
    by (simp add: import_remote_asset_def import_remote_asset_body_def get_unity_connection_def
        send_command_def get_asset_list_cmd_def Let_def)
qed

theorem existing_asset_no_download_witness:
  "import_remote_asset env_listed (PyStr (ascii ''https://host/dir/model.fbx?v=2''))
      (PyStr (ascii ''Imported/model.fbx'')) False True world0
     = (Inr (msg_exists (ascii ''Assets/Imported/model.fbx'')),
        world0\<lparr>sent := [get_asset_list_cmd (ascii ''Assets/Imported/model.fbx'')]\<rparr>)
   \<and> fetched (snd (import_remote_asset env_listed (PyStr (ascii ''https://host/dir/model.fbx?v=2''))
      (PyStr (ascii ''Imported/model.fbx'')) False True world0)) = []"
proof -
  have n: "normalize_target (ascii ''Imported/model.fbx'') = ascii ''Assets/Imported/model.fbx''"
    by (simp add: normalize_target_def startswith_def ascii_def)
  have "import_remote_asset env_listed (PyStr (ascii ''https://host/dir/model.fbx?v=2''))
      (PyStr (ascii ''Imported/model.fbx'')) False True world0
     = (Inr (msg_exists (normalize_target (ascii ''Imported/model.fbx''))),
        world0\<lparr>sent := sent world0 @ [get_asset_list_cmd (normalize_target (ascii ''Imported/model.fbx''))]\<rparr>)"
  proof (rule existing_asset_no_download)
    show "connect_fails env_listed = None" by (simp add: env_listed_def)
    show "ascii ''https://host/dir/model.fbx?v=2'' \<noteq> []" by (simp add: ascii_def)
    show "ascii ''Imported/model.fbx'' \<noteq> []" by (simp add: ascii_def)
    show "unity env_listed (sent world0) (get_asset_list_cmd (normalize_target (ascii ''Imported/model.fbx''))) = Inr listed_response"
      by (simp add: env_listed_def)
    show "r_assets listed_response = Some [\<lparr>a_path = Some (ascii ''Assets/Imported/model.fbx''),
              a_name = Some (ascii ''model.fbx'')\<rparr>]"
      by (simp add: listed_response_def empty_response_def)
    show "\<exists>a \<in> set [\<lparr>a_path = Some (ascii ''Assets/Imported/model.fbx''),
              a_name = Some (ascii ''model.fbx'')\<rparr>]. a_path a = Some (normalize_target (ascii ''Imported/model.fbx''))"
      by (simp add: n)
  qed
  then show ?thesis by (simp add: n world0_def)
qed

subsection \<open>The normalized target path\<close>










subsection \<open>No exception leaves the operations\<close>

lemma import_remote_asset_returns:
  "\<exists>s. fst (import_remote_asset e url target_path overwrite temp_download w) = Inr s"
proof -
  obtain r w1 where b: "import_remote_asset_body e url target_path overwrite temp_download w = (r, w1)"
    by (cases "import_remote_asset_body e url target_path overwrite temp_download w")
  then show ?thesis by (cases r) (simp_all add: import_remote_asset_def)
qed




subsection \<open>The batch: one line per URL\<close>

lemma batch_item_str:
  assumes "import_remote_asset e (PyStr u) (PyStr (tf @ [slash] @ url_filename u)) ow True w = (Inr s, w1)"
  shows "batch_item e n tf ow i (PyStr u) w = (item_label i n @ url_filename u @ ascii '': '' @ s, w1)"
  using assms by (simp add: batch_item_def batch_item_body_def url_filename_def Let_def)

lemma batch_loop_Cons:
  "batch_loop e n tf ow i (u # us) w
     = (fst (batch_item e n tf ow i u w)
          # fst (batch_loop e n tf ow (Suc i) us (snd (batch_item e n tf ow i u w))),
        snd (batch_loop e n tf ow (Suc i) us (snd (batch_item e n tf ow i u w))))"
  by (simp add: case_prod_beta)

lemma length_batch_loop: "length (fst (batch_loop e n tf ow i urls w)) = length urls"
  by (induction urls arbitrary: i w) (simp_all add: batch_loop_Cons del: batch_loop.simps(2))

lemma batch_loop_nth:
  "k < length urls \<Longrightarrow>
     fst (batch_loop e n tf ow i urls w) ! k
       = fst (batch_item e n tf ow (i + k) (urls ! k) (snd (batch_loop e n tf ow i (take k urls) w)))"
proof (induction urls arbitrary: i w k)
  case Nil
  then show ?case by simp
next
  case (Cons u us)
  show ?case
  proof (cases k)
    case 0
    then show ?thesis by (simp add: batch_loop_Cons del: batch_loop.simps(2))
  next
    case (Suc j)
    with Cons.prems have "j < length us" by simp
    from Cons.IH [OF this, of "Suc i" "snd (batch_item e n tf ow i u w)"] Suc show ?thesis
      by (simp add: batch_loop_Cons del: batch_loop.simps(2))
  qed
qed

text \<open>
  C6. For a non-empty list of N URLs the result is the newline-join of exactly N
  lines, in input order. Line i is the label \<^verbatim>\<open>[i+1/N]\<close>, the item's filename, a
  colon, and the string that \<^verbatim>\<open>import_remote_asset\<close> returned for that URL in the
  world left by the items before it. So every item is processed whatever happened to
  the others, and a line reports failure exactly when that item's import did.
\<close>

theorem batch_one_line_per_url:
  assumes "us \<noteq> []"
  shows "\<exists>lines w'.
           batch_import_remote_assets e (PyList (map PyStr us)) target_folder overwrite w
             = (Inr (py_join [newline] lines), w')
         \<and> length lines = length us
         \<and> (\<forall>i < length us.
               \<exists>s. fst (import_remote_asset e (PyStr (us ! i))
                            (PyStr (target_folder @ [slash] @ url_filename (us ! i))) overwrite True
                            (snd (batch_loop e (length us) target_folder overwrite 0
                                    (map PyStr (take i us)) w))) = Inr s
                 \<and> lines ! i = item_label i (length us) @ url_filename (us ! i) @ ascii '': '' @ s)"
proof -
  let ?n = "length us"
  let ?L = "batch_loop e ?n target_folder overwrite 0 (map PyStr us) w"
  have run: "batch_import_remote_assets e (PyList (map PyStr us)) target_folder overwrite w
               = (Inr (py_join [newline] (fst ?L)), snd ?L)"
    using assms by (simp add: batch_import_remote_assets_def split: prod.splits)
  have len: "length (fst ?L) = ?n" by (simp add: length_batch_loop)
  have each: "\<exists>s. fst (import_remote_asset e (PyStr (us ! i))
                            (PyStr (target_folder @ [slash] @ url_filename (us ! i))) overwrite True
                            (snd (batch_loop e ?n target_folder overwrite 0
                                    (map PyStr (take i us)) w))) = Inr s
                 \<and> fst ?L ! i = item_label i ?n @ url_filename (us ! i) @ ascii '': '' @ s"
    if "i < ?n" for i
  proof -
    let ?w = "snd (batch_loop e ?n target_folder overwrite 0 (map PyStr (take i us)) w)"
    let ?I = "import_remote_asset e (PyStr (us ! i))
                (PyStr (target_folder @ [slash] @ url_filename (us ! i))) overwrite True ?w"
    obtain s where s: "fst ?I = Inr s" using import_remote_asset_returns by blast
    then have "?I = (Inr s, snd ?I)" by (metis prod.collapse)
    from batch_item_str [OF this, of ?n i]
    have "fst (batch_item e ?n target_folder overwrite i (PyStr (us ! i)) ?w)
            = item_label i ?n @ url_filename (us ! i) @ ascii '': '' @ s" by simp
    moreover have "fst ?L ! i
            = fst (batch_item e ?n target_folder overwrite i (PyStr (us ! i)) ?w)"
      using batch_loop_nth [of i "map PyStr us" e ?n target_folder overwrite 0 w] that
      by (simp add: take_map)
    ultimately show ?thesis using s by simp
  qed
  from run len each show ?thesis by blast
qed

theorem batch_one_line_per_url_witness:
  "[ascii ''https://host/a.png'', ascii ''https://host/b.png'', ascii ''https://host/c.png?v=2''] \<noteq> []
   \<and> (\<exists>lines w'.
           batch_import_remote_assets env_batch
              (PyList (map PyStr [ascii ''https://host/a.png'', ascii ''https://host/b.png'',
                                  ascii ''https://host/c.png?v=2'']))
              (ascii ''Assets/ImportedAssets'') False world3
             = (Inr (py_join [newline] lines), w')
         \<and> length lines = 3)
   \<and> fst (batch_import_remote_assets env_batch
              (PyList (map PyStr [ascii ''https://host/a.png'', ascii ''https://host/b.png'',
                                  ascii ''https://host/c.png?v=2'']))
              (ascii ''Assets/ImportedAssets'') False world3)
       = Inr (py_join [newline]
           [ascii ''[1/3] a.png: ''
              @ msg_imported (ascii ''https://host/a.png'') (ascii ''Assets/ImportedAssets/a.png''),
            ascii ''[2/3] b.png: '' @ msg_download_failed (ascii ''https://host/b.png''),
            ascii ''[3/3] c.png: ''
              @ msg_imported (ascii ''https://host/c.png?v=2'') (ascii ''Assets/ImportedAssets/c.png'')])"
proof -
  let ?us = "[ascii ''https://host/a.png'', ascii ''https://host/b.png'', ascii ''https://host/c.png?v=2'']"
  let ?B = "batch_import_remote_assets env_batch (PyList (map PyStr ?us))
              (ascii ''Assets/ImportedAssets'') False world3"
  have ne: "?us \<noteq> []" by simp
  from batch_one_line_per_url [OF ne, of env_batch "ascii ''Assets/ImportedAssets''" False world3]
  have a: "\<exists>lines w'. ?B = (Inr (py_join [newline] lines), w') \<and> length lines = 3"
    by auto
  have b: "fst ?B = Inr (py_join [newline]
           [ascii ''[1/3] a.png: ''
              @ msg_imported (ascii ''https://host/a.png'') (ascii ''Assets/ImportedAssets/a.png''),
            ascii ''[2/3] b.png: '' @ msg_download_failed (ascii ''https://host/b.png''),
            ascii ''[3/3] c.png: ''
              @ msg_imported (ascii ''https://host/c.png?v=2'') (ascii ''Assets/ImportedAssets/c.png'')])"
    by (simp add: batch_import_remote_assets_def batch_item_def batch_item_body_def item_label_def
        import_defs fs_defs path_defs env_batch_def env_ok_def world3_def world0_def
        ok_response_def empty_response_def msg_imported_def msg_download_failed_def newline_def
        Let_def)
  from ne a b show ?thesis by blast
qed

subsection \<open>A download that fails\<close>

lemma download_file_fails:
  assumes "http_fails (http e (fetched w) u)"
  shows "fst (download_file e u p w) = False"
proof -
  obtain r1 w1 where m: "makedirs e (dirname p) w = (r1, w1)" by (cases "makedirs e (dirname p) w")
  from makedirs_frame [OF m] have f: "fetched w1 = fetched w" by simp
  show ?thesis
  proof (cases r1)
    case (Inl x)
    with m show ?thesis by (simp add: download_file_def download_file_body_def)
  next
    case (Inr v)
    with m f assms show ?thesis
      by (auto simp: download_file_def download_file_body_def http_fails_def Let_def
          split: http_outcome.splits prod.splits sum.splits option.splits)
  qed
qed

lemma download_and_import_failed:
  assumes "http_fails (http e (fetched w) u)"
    and "download_and_import e u tp ow td dir dp w = (r, w')"
  shows "sent w' = sent w \<and> r = Inr (msg_download_failed u)"
proof -
  obtain b w1 where d: "download_file e u dp w = (b, w1)" by (cases "download_file e u dp w")
  with download_file_fails [OF assms(1), of dp] have "\<not> b" by simp
  with d assms(2) download_file_frame [OF d] show ?thesis
    by (simp add: download_and_import_def)
qed

lemma import_body_failed_download:
  assumes "http_fails (http e (fetched w) (py_str url))"
    and "import_remote_asset_body e url tp ow td w = (r, w')"
  shows "\<exists>cmds. sent w' = sent w @ cmds \<and>
           (cmds = [] \<or> cmds = [get_asset_list_cmd (normalize_target (py_str tp))])"
proof -
  let ?t = "normalize_target (py_str tp)"
  obtain r1 w1 where s: "send_command e (ascii ''GET_ASSET_LIST'') (asset_list_params ?t) w = (r1, w1)"
    by (cases "send_command e (ascii ''GET_ASSET_LIST'') (asset_list_params ?t) w")
  from send_command_frame [OF s]
  have w1: "sent w1 = sent w @ [get_asset_list_cmd ?t]" and f1: "fetched w1 = fetched w"
    by (simp_all add: get_asset_list_cmd_def)
  have tail: "sent w' = sent w1"
    if "resolve_download_path e (py_str url) td w1 = (Inr (dir, dp), w2)"
      and "download_and_import e (py_str url) ?t ow td dir dp w2 = (r, w')"
    for dir dp w2
  proof -
    from resolve_download_path_frame [OF that(1)] f1
    have "fetched w2 = fetched w" and "sent w2 = sent w1" by simp_all
    with download_and_import_failed [OF _ that(2)] assms(1) show ?thesis by simp
  qed
  from assms(2) s w1 tail show ?thesis
    unfolding import_remote_asset_body_def Let_def
    by (auto split: sum.splits if_splits prod.splits dest!: resolve_download_path_frame)
qed

text \<open>
  C2, as stated, fails: \<^verbatim>\<open>download_file\<close> writes straight to the resolved download
  path and removes nothing when the transfer breaks. Here the connection drops after
  three bytes: \<^verbatim>\<open>download_file\<close> returns \<^verbatim>\<open>False\<close>, and the file, absent before,
  stands at the download path with those three bytes, also after
  \<^verbatim>\<open>import_remote_asset\<close> has returned its download-failure message.
\<close>

theorem partial_file_left_after_cut_download:
  "fst (download_file env_cut (ascii ''https://host/dir/model.fbx'')
          (ascii ''/home/u/.unity_mcp_downloads/model.fbx'') world0) = False
   \<and> map_of (files world0) (ascii ''/home/u/.unity_mcp_downloads/model.fbx'') = None
   \<and> map_of (files (snd (download_file env_cut (ascii ''https://host/dir/model.fbx'')
          (ascii ''/home/u/.unity_mcp_downloads/model.fbx'') world0)))
        (ascii ''/home/u/.unity_mcp_downloads/model.fbx'') = Some [1, 2, 3]
   \<and> fst (import_remote_asset env_cut (PyStr (ascii ''https://host/dir/model.fbx''))
          (PyStr (ascii ''Imported/model.fbx'')) False False world0)
      = Inr (msg_download_failed (ascii ''https://host/dir/model.fbx''))
   \<and> map_of (files (snd (import_remote_asset env_cut (PyStr (ascii ''https://host/dir/model.fbx''))
          (PyStr (ascii ''Imported/model.fbx'')) False False world0)))
        (ascii ''/home/u/.unity_mcp_downloads/model.fbx'') = Some [1, 2, 3]"
  by (simp add: import_defs fs_defs path_defs env_cut_def env_ok_def world0_def
        ok_response_def empty_response_def Let_def)

text \<open>
  C2, amended. For every download whose transfer fails (no connection, a status that
  is not 2xx, or a body cut by an error), \<^verbatim>\<open>download_file\<close> returns \<^verbatim>\<open>False\<close>, and
  \<^verbatim>\<open>import_remote_asset\<close> sends no \<^verbatim>\<open>IMPORT_ASSET\<close> command: whatever is left at the
  download path is never handed to the collaborator as a download.
\<close>

theorem failed_download_not_imported:
  assumes "http_fails (http e (fetched w) u)"
  shows "fst (download_file e u download_path w) = False
       \<and> (\<exists>cmds. sent (snd (import_remote_asset e (PyStr u) target_path overwrite temp_download w))
                    = sent w @ cmds
                \<and> (cmds = [] \<or> cmds = [get_asset_list_cmd (normalize_target (py_str target_path))]))"
proof
  show "fst (download_file e u download_path w) = False"
    using assms by (rule download_file_fails)
next
  obtain r w' where b: "import_remote_asset_body e (PyStr u) target_path overwrite temp_download w = (r, w')"
    by (cases "import_remote_asset_body e (PyStr u) target_path overwrite temp_download w")
  have "http_fails (http e (fetched w) (py_str (PyStr u)))" using assms by simp
  from import_body_failed_download [OF this b] b
  show "\<exists>cmds. sent (snd (import_remote_asset e (PyStr u) target_path overwrite temp_download w))
                    = sent w @ cmds
                \<and> (cmds = [] \<or> cmds = [get_asset_list_cmd (normalize_target (py_str target_path))])"
    by (cases r) (simp_all add: import_remote_asset_def)
qed

theorem failed_download_not_imported_witness:
  "http_fails (http env_cut (fetched world0) (ascii ''https://host/dir/model.fbx''))
   \<and> fst (download_file env_cut (ascii ''https://host/dir/model.fbx'')
          (ascii ''/home/u/.unity_mcp_downloads/model.fbx'') world0) = False
   \<and> sent (snd (import_remote_asset env_cut (PyStr (ascii ''https://host/dir/model.fbx''))
          (PyStr (ascii ''Imported/model.fbx'')) False False world0))
      = [get_asset_list_cmd (ascii ''Assets/Imported/model.fbx'')]"
proof -
  have h: "http_fails (http env_cut (fetched world0) (ascii ''https://host/dir/model.fbx''))"
    by (simp add: http_fails_def env_cut_def)
  from failed_download_not_imported [OF h, of "ascii ''/home/u/.unity_mcp_downloads/model.fbx''"]
  have a: "fst (download_file env_cut (ascii ''https://host/dir/model.fbx'')
          (ascii ''/home/u/.unity_mcp_downloads/model.fbx'') world0) = False"
    by simp
  have b: "sent (snd (import_remote_asset env_cut (PyStr (ascii ''https://host/dir/model.fbx''))
          (PyStr (ascii ''Imported/model.fbx'')) False False world0))
      = [get_asset_list_cmd (ascii ''Assets/Imported/model.fbx'')]"
    by (simp add: import_defs fs_defs path_defs env_cut_def env_ok_def world0_def
        ok_response_def empty_response_def get_asset_list_cmd_def Let_def)
  from h a b show ?thesis by simp
qed

subsection \<open>The persistent download directory\<close>









subsection \<open>set_material: an invalid colour\<close>

lemma check_components_bad:
  "list_ex (\<lambda>v. \<not> is_number v \<or> below_zero v \<or> above_one v) vs \<Longrightarrow>
     \<exists>msg. check_components e i vs = Some msg
       \<and> ((\<exists>j. msg = msg_color_not_number j) \<or> (\<exists>j v. msg = msg_color_range e j v))"
proof (induction vs arbitrary: i)
  case Nil
  then show ?case by simp
next
  case (Cons v vs)
  show ?case
  proof (cases "\<not> is_number v \<or> below_zero v \<or> above_one v")
    case True
    then show ?thesis by auto
  next
    case False
    with Cons.prems have "list_ex (\<lambda>v. \<not> is_number v \<or> below_zero v \<or> above_one v) vs"
      by simp
    from Cons.IH [OF this, of "Suc i"] False show ?thesis by simp
  qed
qed

lemma validate_color_bad:
  assumes "cs \<noteq> []" and "bad_color cs"
  shows "\<exists>msg. validate_color e (Some cs) = Some msg
       \<and> ((\<exists>n. msg = msg_color_length n) \<or> (\<exists>j. msg = msg_color_not_number j)
          \<or> (\<exists>j v. msg = msg_color_range e j v))"
proof (cases "length cs = 3 \<or> length cs = 4")
  case False
  with assms(1) show ?thesis by (auto simp: validate_color_def)
next
  case True
  with assms(2) have "list_ex (\<lambda>v. \<not> is_number v \<or> below_zero v \<or> above_one v) cs"
    by (simp add: bad_color_def)
  from check_components_bad [OF this, of e 0] True assms(1) show ?thesis
    by (auto simp: validate_color_def)
qed

lemma check_material_sent:
  assumes "check_material e material_name create w = (r, w')"
  shows "sent w' = sent w \<or> (\<exists>m. sent w' = sent w @ [material_list_cmd m])"
    and "(\<exists>x. r = Inl x) \<or> r = Inr None \<or> (\<exists>m. r = Inr (Some (msg_material_not_found m)))"
  using assms
  by (auto simp: check_material_def send_command_def material_list_cmd_def Let_def
      split: if_splits sum.splits)

lemma set_material_body_bad_color:
  assumes "validate_color e color = Some msg"
    and "set_material_body e object_name material_name color create w = (r, w')"
  shows "(sent w' = sent w \<or> sent w' = sent w @ [find_objects_cmd object_name]
          \<or> (\<exists>m. sent w' = sent w @ [find_objects_cmd object_name, material_list_cmd m]))
       \<and> (connect_fails e = None
            \<and> unity e (sent w) (find_objects_cmd object_name) = Inr resp
            \<and> r_objects resp = Some objs \<and> objs \<noteq> []
          \<longrightarrow> (\<exists>rest. sent w' = sent w @ find_objects_cmd object_name # rest)
            \<and> ((\<exists>x. r = Inl x) \<or> (\<exists>m. r = Inr (msg_material_not_found m)) \<or> r = Inr msg))"
proof -
  let ?w1 = "w\<lparr>sent := sent w @ [find_objects_cmd object_name]\<rparr>"
  obtain r2 w2 where c: "check_material e material_name create ?w1 = (r2, w2)"
    by (cases "check_material e material_name create ?w1")
  note cs = check_material_sent [OF c]
  from assms c cs show ?thesis
    unfolding set_material_body_def get_unity_connection_def send_command_def Let_def
      find_objects_cmd_def [symmetric]
    by (auto simp: find_objects_cmd_def [symmetric] split: option.splits sum.splits if_splits)
qed

lemmas material_defs =
  set_material_def set_material_body_def check_material_def apply_material_def
  validate_color_def set_material_params_def name_truthy_def color_truthy_def
  send_command_def get_unity_connection_def

text \<open>
  C10, as stated, fails for the empty list: its length is neither 3 nor 4, but
  \<^verbatim>\<open>if color:\<close> treats it as no colour, so nothing is validated and
  \<^verbatim>\<open>SET_MATERIAL\<close> is sent (without a colour).
\<close>

theorem empty_color_list_is_sent:
  "length ([] :: color_item list) \<noteq> 3 \<and> length ([] :: color_item list) \<noteq> 4
   \<and> fst (set_material env_found (ascii ''Cube'') None (Some []) True world0)
       = Inr (msg_applied_instance (ascii ''unknown'') (ascii ''Cube''))
   \<and> sent (snd (set_material env_found (ascii ''Cube'') None (Some []) True world0))
       = [find_objects_cmd (ascii ''Cube''),
          set_material_cmd (ascii ''Cube'') None (Some []) True]"
  by (simp add: material_defs env_found_def env_ok_def world0_def ok_response_def
      empty_response_def find_objects_cmd_def set_material_cmd_def ascii_def Let_def)

text \<open>
  C10, amended. For a non-empty colour list whose length is neither 3 nor 4, or which
  holds a component that is not a number, is below 0.0 or is above 1.0 (NaN is neither
  and passes), \<^verbatim>\<open>set_material\<close> never sends \<^verbatim>\<open>SET_MATERIAL\<close>: it sends at most the
  object lookup and then the material listing. When the object is found, the lookup
  has been sent and the result is an error message: the colour error, or, from the
  material lookup that precedes the colour check, the material-not-found message or
  the message of an exception.
\<close>

theorem bad_color_never_sent:
  assumes "cs \<noteq> []" and "bad_color cs"
    and "set_material e object_name material_name (Some cs) create_if_missing w = (r, w')"
  shows "(sent w' = sent w \<or> sent w' = sent w @ [find_objects_cmd object_name]
          \<or> (\<exists>m. sent w' = sent w @ [find_objects_cmd object_name, material_list_cmd m]))
       \<and> (\<forall>c \<in> set (drop (length (sent w)) (sent w')). cmd_name c \<noteq> ascii ''SET_MATERIAL'')
       \<and> (connect_fails e = None
            \<and> unity e (sent w) (find_objects_cmd object_name) = Inr resp
            \<and> r_objects resp = Some objs \<and> objs \<noteq> []
          \<longrightarrow> (\<exists>rest. sent w' = sent w @ find_objects_cmd object_name # rest)
            \<and> (\<exists>s. r = Inr s
                 \<and> ((\<exists>x. s = msg_material_exception x) \<or> (\<exists>m. s = msg_material_not_found m)
                    \<or> (\<exists>n. s = msg_color_length n) \<or> (\<exists>j. s = msg_color_not_number j)
                    \<or> (\<exists>j v. s = msg_color_range e j v))))"
proof -
  obtain msg where v: "validate_color e (Some cs) = Some msg"
    and forms: "(\<exists>n. msg = msg_color_length n) \<or> (\<exists>j. msg = msg_color_not_number j)
          \<or> (\<exists>j v. msg = msg_color_range e j v)"
    using validate_color_bad [OF assms(1,2), of e] by blast
  obtain r0 where b: "set_material_body e object_name material_name (Some cs) create_if_missing w = (r0, w')"
    and r: "r = (case r0 of Inl x \<Rightarrow> Inr (msg_material_exception x) | Inr s \<Rightarrow> Inr s)"
    using assms(3) by (auto simp: set_material_def split: prod.splits sum.splits)
  note t = set_material_body_bad_color [OF v b, of resp objs]
  from t have shape: "sent w' = sent w \<or> sent w' = sent w @ [find_objects_cmd object_name]
          \<or> (\<exists>m. sent w' = sent w @ [find_objects_cmd object_name, material_list_cmd m])"
    by blast
  have names: "cmd_name (find_objects_cmd object_name) \<noteq> ascii ''SET_MATERIAL''"
    "\<And>m. cmd_name (material_list_cmd m) \<noteq> ascii ''SET_MATERIAL''"
    by (simp_all add: find_objects_cmd_def material_list_cmd_def ascii_def)
  from shape names
  have none: "\<forall>c \<in> set (drop (length (sent w)) (sent w')). cmd_name c \<noteq> ascii ''SET_MATERIAL''"
    by auto
  have found: "connect_fails e = None
            \<and> unity e (sent w) (find_objects_cmd object_name) = Inr resp
            \<and> r_objects resp = Some objs \<and> objs \<noteq> []
          \<longrightarrow> (\<exists>rest. sent w' = sent w @ find_objects_cmd object_name # rest)
            \<and> (\<exists>s. r = Inr s
                 \<and> ((\<exists>x. s = msg_material_exception x) \<or> (\<exists>m. s = msg_material_not_found m)
                    \<or> (\<exists>n. s = msg_color_length n) \<or> (\<exists>j. s = msg_color_not_number j)
                    \<or> (\<exists>j v. s = msg_color_range e j v)))"
  proof (intro impI)
    assume h: "connect_fails e = None
            \<and> unity e (sent w) (find_objects_cmd object_name) = Inr resp
            \<and> r_objects resp = Some objs \<and> objs \<noteq> []"
    with t have rest: "\<exists>rest. sent w' = sent w @ find_objects_cmd object_name # rest"
      and r0: "(\<exists>x. r0 = Inl x) \<or> (\<exists>m. r0 = Inr (msg_material_not_found m)) \<or> r0 = Inr msg"
      by blast+
    have "\<exists>s. r = Inr s
                 \<and> ((\<exists>x. s = msg_material_exception x) \<or> (\<exists>m. s = msg_material_not_found m)
                    \<or> (\<exists>n. s = msg_color_length n) \<or> (\<exists>j. s = msg_color_not_number j)
                    \<or> (\<exists>j v. s = msg_color_range e j v))"
      using r0
    proof (elim disjE exE)
      fix x
      assume "r0 = Inl x"
      with r have "r = Inr (msg_material_exception x)" by simp
      then show ?thesis by blast
    next
      fix m
      assume "r0 = Inr (msg_material_not_found m)"
      with r have "r = Inr (msg_material_not_found m)" by simp
      then show ?thesis by blast
    next
      assume "r0 = Inr msg"
      with r have "r = Inr msg" by simp
      with forms show ?thesis by blast
    qed
    with rest show "(\<exists>rest. sent w' = sent w @ find_objects_cmd object_name # rest)
            \<and> (\<exists>s. r = Inr s
                 \<and> ((\<exists>x. s = msg_material_exception x) \<or> (\<exists>m. s = msg_material_not_found m)
                    \<or> (\<exists>n. s = msg_color_length n) \<or> (\<exists>j. s = msg_color_not_number j)
                    \<or> (\<exists>j v. s = msg_color_range e j v)))"
      by blast
  qed
  from shape none found show ?thesis by blast
qed

theorem bad_color_never_sent_witness:
  "[CFloat (1/2), CFloat 2, CInt 0] \<noteq> [] \<and> bad_color [CFloat (1/2), CFloat 2, CInt 0]
   \<and> set_material env_found (ascii ''Cube'') None (Some [CFloat (1/2), CFloat 2, CInt 0]) True world0
       = (Inr (msg_color_range env_found 1 (CFloat 2)),
          world0\<lparr>sent := [find_objects_cmd (ascii ''Cube'')]\<rparr>)
   \<and> list_all (\<lambda>c. cmd_name c \<noteq> ascii ''SET_MATERIAL'')
         (drop (length (sent world0))
           (sent (snd (set_material env_found (ascii ''Cube'') None
              (Some [CFloat (1/2), CFloat 2, CInt 0]) True world0))))"
proof -
  let ?cs = "[CFloat (1/2), CFloat 2, CInt 0]"
  let ?X = "set_material env_found (ascii ''Cube'') None (Some ?cs) True world0"
  have ne: "?cs \<noteq> []" by simp
  have bad: "bad_color ?cs" by (simp add: bad_color_def)
  have x: "?X = (fst ?X, snd ?X)" by simp
  from bad_color_never_sent [OF ne bad x]
  have a: "list_all (\<lambda>c. cmd_name c \<noteq> ascii ''SET_MATERIAL'')
             (drop (length (sent world0)) (sent (snd ?X)))"
    unfolding list_all_iff by blast
  have b: "?X = (Inr (msg_color_range env_found 1 (CFloat 2)),
          world0\<lparr>sent := [find_objects_cmd (ascii ''Cube'')]\<rparr>)"
    by (simp add: material_defs env_found_def env_ok_def world0_def ok_response_def
      empty_response_def find_objects_cmd_def ascii_def Let_def)
  from ne bad a b show ?thesis by blast
qed

end
